theory Spec2Isabelle
  imports Main "HOL-Library.Word" "HOL-Library.Sublist"
begin

unbundle bit_operations_syntax

section \<open>The speech-to-text relay of \<^verbatim>\<open>src/index.ts\<close>\<close>

text \<open>
  The source file holds two variants of one Cloudflare-Workers handler
  \<^verbatim>\<open>fetch(request, env)\<close>: the first at lines 1--181, the second at lines 182--317.
  Both are embedded here, as \<open>fetch_v1\<close> and \<open>fetch_v2\<close>, over a small model of the
  JavaScript values they touch. The handler is an \<^verbatim>\<open>async\<close> function: its awaited calls
  to the outside (the JSON parse of the credential blob, the token exchange, the outbound
  HTTP call) are nodes of an interaction tree, answered by a \<open>world\<close>.

  The model follows the language's semantics, and takes from the engine one thing the
  language leaves to it: the number of arguments a single call can take, which the spread
  call of line 123 runs into (\<open>max_arguments\<close> of the world). It leaves out what
  belongs to the platform: the parsing of \<^verbatim>\<open>request.url\<close> (a request carries its URL
  parsed), a failure while a body is being read, the loading of modules, the presence of
  the \<^verbatim>\<open>Buffer\<close> global, and the exhaustion of memory.
\<close>

subsection \<open>Strings, bytes and thrown values\<close>

text \<open>
  A JavaScript string is a sequence of 16-bit code units; an \<^verbatim>\<open>ArrayBuffer\<close> is a
  sequence of bytes. \<open>lit\<close> turns an ASCII literal of the source into a JavaScript string.
\<close>

type_synonym jsstring = "16 word list"
type_synonym byte = "8 word"

definition lit :: "string \<Rightarrow> jsstring" where
  "lit s = map (\<lambda>c. of_nat (of_char c)) s"

text \<open>A thrown value: an \<^verbatim>\<open>Error\<close> object, read only through \<^verbatim>\<open>err.message\<close>.\<close>

datatype js_error = JsError (message: jsstring)

text \<open>
  A property that the source reads from an \<^verbatim>\<open>any\<close>-typed object and only ever
  interpolates into a string or hands on: absent, \<^verbatim>\<open>null\<close>, or a string.
\<close>

datatype js_field = Undefined | Null | Str jsstring

text \<open>The conversion a template literal \<^verbatim>\<open>`${x}`\<close> applies.\<close>

fun template_str :: "js_field \<Rightarrow> jsstring" where
  "template_str Undefined = lit ''undefined''"
| "template_str Null = lit ''null''"
| "template_str (Str s) = s"

subsection \<open>\<^verbatim>\<open>JSON.stringify\<close> on the values the handler builds\<close>

text \<open>
  The handler serialises two object literals: the request payload (strings and one
  integer) and \<^verbatim>\<open>{ text: transcription }\<close>. \<open>json\<close> has exactly these shapes.
\<close>

datatype json = JNumber nat | JString jsstring | JObject "(jsstring \<times> json) list"

definition hex_digit :: "nat \<Rightarrow> 16 word" where
  "hex_digit n = (if n < 10 then of_nat (48 + n) else of_nat (87 + n))"

text \<open>\<^verbatim>\<open>UnicodeEscape\<close>: \<^verbatim>\<open>\uXXXX\<close> with four lower-case hexadecimal digits.\<close>

definition UnicodeEscape :: "16 word \<Rightarrow> jsstring" where
  "UnicodeEscape c =
     [0x5C, 0x75,
      hex_digit (unat (drop_bit 12 c)),
      hex_digit (unat (drop_bit 8 c AND 0xF)),
      hex_digit (unat (drop_bit 4 c AND 0xF)),
      hex_digit (unat (c AND 0xF))]"

definition is_leading_surrogate :: "16 word \<Rightarrow> bool" where
  "is_leading_surrogate c = (0xD800 \<le> c \<and> c \<le> 0xDBFF)"

definition is_trailing_surrogate :: "16 word \<Rightarrow> bool" where
  "is_trailing_surrogate c = (0xDC00 \<le> c \<and> c \<le> 0xDFFF)"

text \<open>One code unit that is not part of a surrogate pair, as \<^verbatim>\<open>QuoteJSONString\<close> writes it.\<close>

definition quote_unit :: "16 word \<Rightarrow> jsstring" where
  "quote_unit c =
     (if c = 0x08 then [0x5C, 0x62]
      else if c = 0x09 then [0x5C, 0x74]
      else if c = 0x0A then [0x5C, 0x6E]
      else if c = 0x0C then [0x5C, 0x66]
      else if c = 0x0D then [0x5C, 0x72]
      else if c = 0x22 then [0x5C, 0x22]
      else if c = 0x5C then [0x5C, 0x5C]
      else if c < 0x20 \<or> is_leading_surrogate c \<or> is_trailing_surrogate c
        then UnicodeEscape c
      else [c])"

fun quote_units :: "jsstring \<Rightarrow> jsstring" where
  "quote_units [] = []"
| "quote_units [c] = quote_unit c"
| "quote_units (c # d # cs) =
     (if is_leading_surrogate c \<and> is_trailing_surrogate d
      then c # d # quote_units cs
      else quote_unit c @ quote_units (d # cs))"

definition QuoteJSONString :: "jsstring \<Rightarrow> jsstring" where
  "QuoteJSONString s = [0x22] @ quote_units s @ [0x22]"

fun decimal :: "nat \<Rightarrow> jsstring" where
  "decimal n =
     (if n < 10 then [of_nat (48 + n)]
      else decimal (n div 10) @ [of_nat (48 + n mod 10)])"

declare decimal.simps [simp del]

fun JSON_stringify :: "json \<Rightarrow> jsstring"
  and stringify_members :: "(jsstring \<times> json) list \<Rightarrow> jsstring" where
  "JSON_stringify (JNumber n) = decimal n"
| "JSON_stringify (JString s) = QuoteJSONString s"
| "JSON_stringify (JObject kvs) = lit ''{'' @ stringify_members kvs @ lit ''}''"
| "stringify_members [] = []"
| "stringify_members [(k, v)] = QuoteJSONString k @ lit '':'' @ JSON_stringify v"
| "stringify_members ((k, v) # kv # kvs) =
     QuoteJSONString k @ lit '':'' @ JSON_stringify v @ lit '','' @ stringify_members (kv # kvs)"

subsection \<open>Base64\<close>

text \<open>
  Both \<^verbatim>\<open>btoa\<close> and \<^verbatim>\<open>Buffer.prototype.toString("base64")\<close> produce the padded
  base64 of RFC 4648. \<^verbatim>\<open>btoa\<close> takes a string and throws when a code unit exceeds
  \<open>0xFF\<close>.
\<close>

definition base64_alphabet :: string where
  "base64_alphabet =
     ''ABCDEFGHIJKLMNOPQRSTUVWXYZabcdefghijklmnopqrstuvwxyz0123456789+/''"

definition base64_char :: "byte \<Rightarrow> 16 word" where
  "base64_char i = of_nat (of_char (base64_alphabet ! (unat (i AND 0x3F))))"

fun base64_encode :: "byte list \<Rightarrow> jsstring" where
  "base64_encode [] = []"
| "base64_encode [a] =
     [base64_char (drop_bit 2 a),
      base64_char (push_bit 4 (a AND 0x03)),
      0x3D, 0x3D]"
| "base64_encode [a, b] =
     [base64_char (drop_bit 2 a),
      base64_char (push_bit 4 (a AND 0x03) OR drop_bit 4 b),
      base64_char (push_bit 2 (b AND 0x0F)),
      0x3D]"
| "base64_encode (a # b # c # rest) =
     [base64_char (drop_bit 2 a),
      base64_char (push_bit 4 (a AND 0x03) OR drop_bit 4 b),
      base64_char (push_bit 2 (b AND 0x0F) OR drop_bit 6 c),
      base64_char (c AND 0x3F)] @ base64_encode rest"

text \<open>
  \<^verbatim>\<open>String.fromCharCode(...codes)\<close>: the spread hands every element of \<open>codes\<close> to
  the function as one argument of one call, and the function makes a string of the low 16
  bits of each. A call with more arguments than the engine takes throws a
  \<^verbatim>\<open>RangeError\<close> instead; \<open>max_args\<close> is that bound.
\<close>

definition String_fromCharCode :: "nat \<Rightarrow> byte list \<Rightarrow> js_error + jsstring" where
  "String_fromCharCode max_args codes =
     (if max_args < length codes
      then Inl (JsError (lit ''Maximum call stack size exceeded''))
      else Inr (map ucast codes))"

definition btoa :: "jsstring \<Rightarrow> js_error + jsstring" where
  "btoa s =
     (if list_ex (\<lambda>c. 0xFF < c) s
      then Inl (JsError (lit ''Invalid character''))
      else Inr (base64_encode (map ucast s)))"

definition Buffer_toString_base64 :: "byte list \<Rightarrow> jsstring" where
  "Buffer_toString_base64 buf = base64_encode buf"


subsection \<open>Requests, configuration and responses\<close>

text \<open>
  The handler reads \<^verbatim>\<open>request.url\<close> only through \<^verbatim>\<open>new URL(...).pathname\<close>, so a
  request carries its URL parsed: the path, and the query string the handler never reads.
  \<open>arrayBuffer\<close> is what \<^verbatim>\<open>await request.arrayBuffer()\<close> yields (no bytes for a
  request without a body).
\<close>

record url =
  pathname :: jsstring
  search :: jsstring

record request =
  request_method :: jsstring
  request_url :: url
  request_headers :: "(jsstring \<times> jsstring) list"
  arrayBuffer :: "byte list"

text \<open>
  \<^verbatim>\<open>env.SHEETS_SERVICE_KEY_JSON\<close>: \<open>None\<close> when the binding is absent
  (\<^verbatim>\<open>undefined\<close>), otherwise the secret's text.
\<close>

record env =
  SHEETS_SERVICE_KEY_JSON :: "jsstring option"

text \<open>
  A response as the handler constructs it: the status, the headers it passes, and the
  body text (\<open>None\<close> for the bodiless redirect). Headers that the platform adds on its
  own are not part of the model.
\<close>

record response =
  status :: nat
  headers :: "(jsstring \<times> jsstring) list"
  body :: "jsstring option"

text \<open>\<^verbatim>\<open>new Response(body, { status, headers })\<close>; the status defaults to 200.\<close>

definition new_Response :: "jsstring \<Rightarrow> nat \<Rightarrow> (jsstring \<times> jsstring) list \<Rightarrow> response" where
  "new_Response b st hs = \<lparr>status = st, headers = hs, body = Some b\<rparr>"

text \<open>\<^verbatim>\<open>Response.redirect(url)\<close>: status 302 and a \<^verbatim>\<open>Location\<close> header.\<close>

definition Response_redirect :: "jsstring \<Rightarrow> response" where
  "Response_redirect target = \<lparr>status = 302, headers = [(lit ''Location'', target)], body = None\<rparr>"

subsection \<open>The outside world\<close>

text \<open>
  What \<^verbatim>\<open>JSON.parse(credentials)\<close> yields, as far as \<open>getAuthToken\<close> reads it:
  \<^verbatim>\<open>null\<close> (on which the property read throws), or a value with its
  \<^verbatim>\<open>client_email\<close> and \<^verbatim>\<open>private_key\<close> properties.
\<close>

datatype parsed_credentials =
    ParsedNull
  | Parsed (client_email: js_field) (private_key: js_field)

record jwt_options =
  email :: js_field
  key :: js_field
  scopes :: "jsstring list"

text \<open>The object \<^verbatim>\<open>client.authorize()\<close> resolves to.\<close>

record credentials =
  access_token :: js_field

record outbound_request =
  out_url :: jsstring
  out_method :: jsstring
  out_headers :: "(jsstring \<times> jsstring) list"
  out_body :: jsstring

text \<open>
  The body of the speech API's answer, at the type the second variant declares for it
  (line 296): \<^verbatim>\<open>{ results?: { alternatives?: { transcript?: string }[] }[] }\<close>.
\<close>

record alternative =
  transcript :: "jsstring option"

record speech_result =
  alternatives :: "alternative list option"

record recognize_result =
  results :: "speech_result list option"

text \<open>
  The answer of the outbound call: its HTTP status, what \<^verbatim>\<open>await sttResponse.text()\<close>
  yields, and what \<^verbatim>\<open>await sttResponse.json()\<close> yields or throws.
\<close>

record api_response =
  api_status :: nat
  api_text :: jsstring
  api_json :: "js_error + recognize_result"

text \<open>\<^verbatim>\<open>Response.ok\<close>: the status is in the range 200--299.\<close>

definition ok :: "api_response \<Rightarrow> bool" where
  "ok r = (200 \<le> api_status r \<and> api_status r \<le> 299)"

text \<open>
  An \<^verbatim>\<open>async\<close> computation: it is done, it has thrown, or it waits for the outside
  to answer a call, with a value or with a thrown error. \<open>Engine_max_arguments\<close> reads
  the engine's bound on the arguments of one call.
\<close>

datatype 'a io =
    Done 'a
  | Throw js_error
  | Call_JSON_parse jsstring "js_error + parsed_credentials \<Rightarrow> 'a io"
  | Call_authorize jwt_options "js_error + credentials \<Rightarrow> 'a io"
  | Call_fetch outbound_request "js_error + api_response \<Rightarrow> 'a io"
  | Engine_max_arguments "nat \<Rightarrow> 'a io"

primrec bind :: "'a io \<Rightarrow> ('a \<Rightarrow> 'b io) \<Rightarrow> 'b io" where
  "bind (Done x) f = f x"
| "bind (Throw e) f = Throw e"
| "bind (Call_JSON_parse s k) f = Call_JSON_parse s (\<lambda>r. bind (k r) f)"
| "bind (Call_authorize opts k) f = Call_authorize opts (\<lambda>r. bind (k r) f)"
| "bind (Call_fetch rq k) f = Call_fetch rq (\<lambda>r. bind (k r) f)"
| "bind (Engine_max_arguments k) f = Engine_max_arguments (\<lambda>n. bind (k n) f)"

text \<open>The engine's bound, and the answers of the outside: one function per kind of call.\<close>

record world =
  max_arguments :: nat
  JSON_parse :: "jsstring \<Rightarrow> js_error + parsed_credentials"
  authorize :: "jwt_options \<Rightarrow> js_error + credentials"
  net_fetch :: "outbound_request \<Rightarrow> js_error + api_response"

text \<open>Running a computation in a world: the value it returns, or the error it throws.\<close>

primrec run :: "world \<Rightarrow> 'a io \<Rightarrow> js_error + 'a" where
  "run w (Done x) = Inr x"
| "run w (Throw e) = Inl e"
| "run w (Call_JSON_parse s k) = run w (k (JSON_parse w s))"
| "run w (Call_authorize opts k) = run w (k (authorize w opts))"
| "run w (Call_fetch rq k) = run w (k (net_fetch w rq))"
| "run w (Engine_max_arguments k) = run w (k (max_arguments w))"

text \<open>
  The outbound HTTP calls a computation makes when it runs in a world, each with the
  request sent and the answer received, in order.
\<close>

primrec fetch_calls :: "world \<Rightarrow> 'a io \<Rightarrow> (outbound_request \<times> (js_error + api_response)) list" where
  "fetch_calls w (Done x) = []"
| "fetch_calls w (Throw e) = []"
| "fetch_calls w (Call_JSON_parse s k) = fetch_calls w (k (JSON_parse w s))"
| "fetch_calls w (Call_authorize opts k) = fetch_calls w (k (authorize w opts))"
| "fetch_calls w (Call_fetch rq k) = (rq, net_fetch w rq) # fetch_calls w (k (net_fetch w rq))"
| "fetch_calls w (Engine_max_arguments k) = fetch_calls w (k (max_arguments w))"

subsection \<open>The pieces of the handler\<close>

text \<open>The page of the first variant (lines 14--95), line by line.\<close>

definition html_v1_lines :: "string list" where
  \<open>html_v1_lines =
    [''        <!DOCTYPE html>'',
     ''        <html>'',
     ''        <head>'',
     ''          <title>Speech-to-Text</title>'',
     ''          <style>'',
     ''            body { font-family: Arial, sans-serif; padding: 20px; }'',
     ''            pre { background: #f0f0f0; padding: 10px; }'',
     ''            button { margin: 5px; }'',
     ''          </style>'',
     ''        </head>'',
     ''        <body>'',
     ''          <h1>Speech-to-Text Demo</h1>'',
     ''          <button id="recordButton">Start Recording</button>'',
     ''          <button id="stopButton" disabled>Stop Recording</button>'',
     ''          <input type="file" id="audioFile" accept="audio/*">'',
     ''          <button onclick="uploadFile()">Transcribe File</button>'',
     ''          <pre id="result">Transcription will appear here...</pre>'',
     '''',
     ''          <script>'',
     ''            let mediaRecorder;'',
     ''            let audioChunks = [];'',
     '''',
     ''            // Microphone recording'',
     ''            document.getElementById("recordButton").addEventListener("click", async () => {'',
     ''              const stream = await navigator.mediaDevices.getUserMedia({ audio: true });'',
     ''              mediaRecorder = new MediaRecorder(stream, { mimeType: "audio/webm;codecs=opus" });'',
     '''',
     ''              mediaRecorder.ondataavailable = (event) => {'',
     ''                audioChunks.push(event.data);'',
     ''              };'',
     '''',
     ''              mediaRecorder.onstop = async () => {'',
     ''                const audioBlob = new Blob(audioChunks, { type: "audio/webm;codecs=opus" });'',
     ''                audioChunks = []; // Reset for next recording'',
     ''                await uploadAudio(audioBlob);'',
     ''                stream.getTracks().forEach(track => track.stop()); // Stop microphone'',
     ''              };'',
     '''',
     ''              audioChunks = [];'',
     ''              mediaRecorder.start();'',
     ''              document.getElementById("recordButton").disabled = true;'',
     ''              document.getElementById("stopButton").disabled = false;'',
     ''            });'',
     '''',
     ''            document.getElementById("stopButton").addEventListener("click", () => {'',
     ''              mediaRecorder.stop();'',
     ''              document.getElementById("recordButton").disabled = false;'',
     ''              document.getElementById("stopButton").disabled = true;'',
     ''            });'',
     '''',
     ''            // File upload (existing functionality)'',
     ''            async function uploadFile() {'',
     ''              const fileInput = document.getElementById("audioFile");'',
     ''              const file = fileInput.files[0];'',
     ''              if (!file) {'',
     ''                alert("Please select an audio file");'',
     ''                return;'',
     ''              }'',
     ''              await uploadAudio(file);'',
     ''            }'',
     '''',
     ''            // Shared upload function'',
     ''            async function uploadAudio(audioBlob) {'',
     ''              const response = await fetch("", {'',
     ''                method: "POST",'',
     ''                body: audioBlob,'',
     ''                headers: { "Content-Type": audioBlob.type },'',
     ''              });'',
     '''',
     ''              if (!response.ok) {'',
     ''                alert("Error transcribing audio");'',
     ''                return;'',
     ''              }'',
     '''',
     ''              const { text } = await response.json();'',
     ''              document.getElementById("result").textContent = text;'',
     ''            }'',
     ''          </script>'',
     ''        </body>'',
     ''        </html>'',
     ''      '']\<close>
definition html_v1 :: jsstring where
  "html_v1 = lit (concat (map (\<lambda>l. CHR 0x0A # l) html_v1_lines))"

text \<open>The page of the second variant (lines 195--237).\<close>

definition html_v2_lines :: "string list" where
  \<open>html_v2_lines =
    [''        <!DOCTYPE html>'',
     ''        <html>'',
     ''        <head>'',
     ''          <title>Speech-to-Text</title>'',
     ''          <style>'',
     ''            body { font-family: Arial, sans-serif; padding: 20px; }'',
     ''            pre { background: #f0f0f0; padding: 10px; }'',
     ''          </style>'',
     ''        </head>'',
     ''        <body>'',
     ''          <h1>Speech-to-Text Demo</h1>'',
     ''          <input type="file" id="audioFile" accept="audio/*">'',
     ''          <button onclick="uploadAudio()">Transcribe</button>'',
     ''          <pre id="result">Transcription will appear here...</pre>'',
     '''',
     ''          <script>'',
     ''            async function uploadAudio() {'',
     ''              const fileInput = document.getElementById("audioFile");'',
     ''              const file = fileInput.files[0];'',
     ''              if (!file) {'',
     ''                alert("Please select an audio file");'',
     ''                return;'',
     ''              }'',
     '''',
     ''              const response = await fetch("", {'',
     ''                method: "POST",'',
     ''                body: file,'',
     ''                headers: { "Content-Type": file.type },'',
     ''              });'',
     '''',
     ''              if (!response.ok) {'',
     ''                alert("Error transcribing audio");'',
     ''                return;'',
     ''              }'',
     '''',
     ''              const { text } = await response.json();'',
     ''              document.getElementById("result").textContent = text;'',
     ''            }'',
     ''          </script>'',
     ''        </body>'',
     ''        </html>'',
     ''      '']\<close>

definition html_v2 :: jsstring where
  "html_v2 = lit (concat (map (\<lambda>l. CHR 0x0A # l) html_v2_lines))"

text \<open>
  \<^verbatim>\<open>!x\<close> on the configuration value: true when it is absent or the empty string.
\<close>

definition falsy :: "jsstring option \<Rightarrow> bool" where
  "falsy v = (case v of None \<Rightarrow> True | Some s \<Rightarrow> s = [])"

text \<open>
  \<^verbatim>\<open>result.results?.[0]?.alternatives?.[0]?.transcript\<close>: each \<^verbatim>\<open>?.\<close> yields
  \<^verbatim>\<open>undefined\<close> for the whole chain when what it is applied to is missing, and
  \<^verbatim>\<open>[0]\<close> of an empty array is missing.
\<close>

definition first_transcript :: "recognize_result \<Rightarrow> jsstring option" where
  "first_transcript result =
     (case results result of
        None \<Rightarrow> None
      | Some rs \<Rightarrow>
          (case rs of
             [] \<Rightarrow> None
           | r # _ \<Rightarrow>
               (case alternatives r of
                  None \<Rightarrow> None
                | Some as \<Rightarrow> (case as of [] \<Rightarrow> None | a # _ \<Rightarrow> transcript a))))"

text \<open>\<^verbatim>\<open>x || d\<close>: \<open>d\<close> when \<open>x\<close> is \<^verbatim>\<open>undefined\<close> or the empty string.\<close>

definition or_default :: "jsstring option \<Rightarrow> jsstring \<Rightarrow> jsstring" where
  "or_default x d = (case x of None \<Rightarrow> d | Some s \<Rightarrow> if s = [] then d else s)"

definition payload :: "jsstring \<Rightarrow> json" where
  "payload audioBase64 =
     JObject
       [(lit ''config'',
           JObject
             [(lit ''encoding'', JString (lit ''MP3'')),
              (lit ''sampleRateHertz'', JNumber 16000),
              (lit ''languageCode'', JString (lit ''en-US''))]),
        (lit ''audio'', JObject [(lit ''content'', JString audioBase64)])]"

definition sttApiUrl :: jsstring where
  "sttApiUrl = lit ''https://speech.googleapis.com/v1/speech:recognize''"

text \<open>The call \<^verbatim>\<open>fetch(sttApiUrl, { method, headers, body })\<close> of lines 142--149.\<close>

definition stt_request :: "js_field \<Rightarrow> jsstring \<Rightarrow> outbound_request" where
  "stt_request authToken audioBase64 =
     \<lparr>out_url = sttApiUrl,
      out_method = lit ''POST'',
      out_headers =
        [(lit ''Authorization'', lit ''Bearer '' @ template_str authToken),
         (lit ''Content-Type'', lit ''application/json'')],
      out_body = JSON_stringify (payload audioBase64)\<rparr>"


text \<open>
  The conversion to a string that \<^verbatim>\<open>JSON.parse\<close> applies to its argument; the handler
  only passes a present, non-empty value on.
\<close>

definition ToString :: "jsstring option \<Rightarrow> jsstring" where
  "ToString v = (case v of None \<Rightarrow> lit ''undefined'' | Some s \<Rightarrow> s)"

subsection \<open>The token exchange (lines 171--181 and 308--317)\<close>

text \<open>
  The first variant loads the library with a dynamic \<^verbatim>\<open>import\<close>, the second
  with a static one; loading a module is not modelled. The message of the error thrown
  by a property read on \<^verbatim>\<open>null\<close> is the engine's and stands for itself here.
\<close>

definition getAuthToken_v1 :: "jsstring option \<Rightarrow> js_field io" where
  "getAuthToken_v1 credentials =
     Call_JSON_parse (ToString credentials) (\<lambda>parsed.
       case parsed of
         Inl e \<Rightarrow> Throw e
       | Inr creds \<Rightarrow>
           (case creds of
              ParsedNull \<Rightarrow> Throw (JsError (lit ''Cannot read properties of null''))
            | Parsed _ _ \<Rightarrow>
                Call_authorize
                  \<lparr>email = client_email creds,
                   key = private_key creds,
                   scopes = [lit ''https://www.googleapis.com/auth/cloud-platform'']\<rparr>
                  (\<lambda>authorized.
                     case authorized of
                       Inl e \<Rightarrow> Throw e
                     | Inr token \<Rightarrow> Done (access_token token))))"

definition getAuthToken_v2 :: "jsstring option \<Rightarrow> js_field io" where
  "getAuthToken_v2 credentials =
     Call_JSON_parse (ToString credentials) (\<lambda>parsed.
       case parsed of
         Inl e \<Rightarrow> Throw e
       | Inr creds \<Rightarrow>
           (case creds of
              ParsedNull \<Rightarrow> Throw (JsError (lit ''Cannot read properties of null''))
            | Parsed _ _ \<Rightarrow>
                Call_authorize
                  \<lparr>email = client_email creds,
                   key = private_key creds,
                   scopes = [lit ''https://www.googleapis.com/auth/cloud-platform'']\<rparr>
                  (\<lambda>authorized.
                     case authorized of
                       Inl e \<Rightarrow> Throw e
                     | Inr token \<Rightarrow> Done (access_token token))))"

subsection \<open>The handler, first variant (lines 4--168)\<close>

definition fetch_v1 :: "request \<Rightarrow> env \<Rightarrow> response io" where
  "fetch_v1 request env =
     (if pathname (request_url request) = lit ''/favicon.ico'' then
        Done (Response_redirect (lit ''https://jacklehamster.github.io/stt-worker/icon.png''))
      else if request_method request = lit ''GET'' \<and> pathname (request_url request) = lit ''/'' then
        Done (new_Response html_v1 200
                [(lit ''Content-Type'', lit ''text/html''),
                 (lit ''Cache-Control'', lit ''public, max-age=3600'')])
      else if request_method request \<noteq> lit ''POST'' then
        Done (new_Response (lit ''Method not allowed. Use POST with audio data.'') 405
                [(lit ''Content-Type'', lit ''text/plain'')])
      else if falsy (SHEETS_SERVICE_KEY_JSON env) then
        Done (new_Response (lit ''Missing service credentials'') 500 [])
      else if arrayBuffer request = [] then
        Done (new_Response (lit ''No audio data provided'') 400 [])
      else
        Engine_max_arguments (\<lambda>max_args.
          case String_fromCharCode max_args (arrayBuffer request) of
            Inl e \<Rightarrow> Throw e
          | Inr binaryString \<Rightarrow>
              (case btoa binaryString of
                 Inl e \<Rightarrow> Throw e
               | Inr audioBase64 \<Rightarrow>
                   bind (getAuthToken_v1 (SHEETS_SERVICE_KEY_JSON env)) (\<lambda>authToken.
                     Call_fetch (stt_request authToken audioBase64) (\<lambda>fetched.
                       case fetched of
                         Inl err \<Rightarrow>
                           Done (new_Response (lit ''Fetch error: '' @ message err) 503 [])
                       | Inr sttResponse \<Rightarrow>
                           if \<not> ok sttResponse then
                             Done (new_Response
                                     (lit ''STT API error: '' @ api_text sttResponse) 500 [])
                           else
                             (case api_json sttResponse of
                                Inl e \<Rightarrow> Throw e
                              | Inr result \<Rightarrow>
                                  Done (new_Response
                                          (JSON_stringify
                                             (JObject
                                                [(lit ''text'',
                                                  JString
                                                    (or_default (first_transcript result)
                                                       (lit ''No transcription available'')))]))
                                          200
                                          [(lit ''Content-Type'', lit ''application/json''),
                                           (lit ''Cache-Control'', lit ''no-store'')])))))))"

subsection \<open>The handler, second variant (lines 185--305)\<close>

definition fetch_v2 :: "request \<Rightarrow> env \<Rightarrow> response io" where
  "fetch_v2 request env =
     (if pathname (request_url request) = lit ''/favicon.ico'' then
        Done (Response_redirect (lit ''https://jacklehamster.github.io/stt-worker/icon.png''))
      else if request_method request = lit ''GET'' \<and> pathname (request_url request) = lit ''/'' then
        Done (new_Response html_v2 200 [(lit ''Content-Type'', lit ''text/html'')])
      else if request_method request \<noteq> lit ''POST'' then
        Done (new_Response (lit ''Method not allowed. Use POST with audio data.'') 405
                [(lit ''Content-Type'', lit ''text/plain'')])
      else if falsy (SHEETS_SERVICE_KEY_JSON env) then
        Done (new_Response (lit ''Missing service credentials'') 500 [])
      else if arrayBuffer request = [] then
        Done (new_Response (lit ''No audio data provided'') 400 [])
      else
        bind (getAuthToken_v2 (SHEETS_SERVICE_KEY_JSON env)) (\<lambda>authToken.
          Call_fetch (stt_request authToken (Buffer_toString_base64 (arrayBuffer request)))
            (\<lambda>fetched.
               case fetched of
                 Inl err \<Rightarrow>
                   Done (new_Response (lit ''Fetch error: '' @ message err) 503 [])
               | Inr sttResponse \<Rightarrow>
                   if \<not> ok sttResponse then
                     Done (new_Response (lit ''STT API error: '' @ api_text sttResponse) 500 [])
                   else
                     (case api_json sttResponse of
                        Inl e \<Rightarrow> Throw e
                      | Inr result \<Rightarrow>
                          Done (new_Response
                                  (JSON_stringify
                                     (JObject
                                        [(lit ''text'',
                                          JString
                                            (or_default (first_transcript result)
                                               (lit ''No transcription available'')))]))
                                  200
                                  [(lit ''Content-Type'', lit ''application/json''),
                                   (lit ''Cache-Control'', lit ''no-store'')])))))"


section \<open>Properties\<close>

subsection \<open>Library facts\<close>

lemma unat_ucast_byte: "unat (ucast (b :: byte) :: 16 word) = unat b"
proof -
  have "unat b < 2 ^ 8"
    using unsigned_less [of b, where 'a = nat] by simp
  then show ?thesis
    by (simp add: unsigned_ucast_eq take_bit_nat_eq_self)
qed

lemma ucast_byte_le: "\<not> 0xFF < (ucast (b :: byte) :: 16 word)"
proof -
  have "unat b < 2 ^ 8"
    using unsigned_less [of b, where 'a = nat] by simp
  then show ?thesis
    by (simp add: word_less_nat_alt unat_ucast_byte)
qed

lemma ucast_byte_id: "(ucast (ucast (b :: byte) :: 16 word) :: byte) = b"
  by (simp add: ucast_up_ucast_id is_up)

text \<open>
  \<^verbatim>\<open>btoa\<close> never throws on a string whose code units come from bytes, and encodes
  those bytes.
\<close>

lemma btoa_bytes: "btoa (map ucast (bs :: byte list)) = Inr (base64_encode bs)"
  by (simp add: btoa_def list_ex_iff ucast_byte_le ucast_byte_id comp_def)

text \<open>
  Lines 122--124: within the engine's bound the first variant encodes the bytes, beyond
  it the spread call throws.
\<close>

lemma spread_then_btoa:
  "(case String_fromCharCode max_args bs of
      Inl e \<Rightarrow> Throw e
    | Inr binaryString \<Rightarrow>
        (case btoa binaryString of Inl e \<Rightarrow> Throw e | Inr audioBase64 \<Rightarrow> f audioBase64)) =
   (if max_args < length bs
    then Throw (JsError (lit ''Maximum call stack size exceeded''))
    else f (base64_encode bs))"
  by (simp add: String_fromCharCode_def btoa_bytes)

lemma POST_not_GET: "lit ''POST'' \<noteq> lit ''GET''"
  by (simp add: lit_def)

lemma root_not_favicon: "lit ''/'' \<noteq> lit ''/favicon.ico''"
  by (simp add: lit_def)

lemma run_bind:
  "run w (bind m f) = (case run w m of Inl e \<Rightarrow> Inl e | Inr x \<Rightarrow> run w (f x))"
  by (induction m) simp_all

lemma fetch_calls_bind:
  "fetch_calls w (bind m f) =
     fetch_calls w m @ (case run w m of Inl e \<Rightarrow> [] | Inr x \<Rightarrow> fetch_calls w (f x))"
  by (induction m) simp_all

subsection \<open>The branches of the handler\<close>

lemma getAuthToken_same: "getAuthToken_v1 = getAuthToken_v2"
  by (rule ext) (simp add: getAuthToken_v1_def getAuthToken_v2_def)

lemma fetch_calls_getAuthToken: "fetch_calls w (getAuthToken_v1 c) = []"
  by (simp add: getAuthToken_v1_def split: sum.splits parsed_credentials.splits)

text \<open>On the page branch the variants differ, in the page and in its headers.\<close>

lemma page_variants_differ:
  assumes "request_method request = lit ''GET''"
    and "pathname (request_url request) = lit ''/''"
  shows "fetch_v1 request env \<noteq> fetch_v2 request env"
proof -
  have "fetch_v1 request env =
     Done (new_Response html_v1 200
             [(lit ''Content-Type'', lit ''text/html''),
              (lit ''Cache-Control'', lit ''public, max-age=3600'')])"
    unfolding fetch_v1_def using assms root_not_favicon by simp
  moreover have "fetch_v2 request env =
     Done (new_Response html_v2 200 [(lit ''Content-Type'', lit ''text/html'')])"
    unfolding fetch_v2_def using assms root_not_favicon by simp
  ultimately show ?thesis
    by (simp add: new_Response_def)
qed

lemma handler_favicon:
  assumes "handler = fetch_v1 \<or> handler = fetch_v2"
    and "pathname (request_url request) = lit ''/favicon.ico''"
  shows "handler request env =
     Done (Response_redirect (lit ''https://jacklehamster.github.io/stt-worker/icon.png''))"
  using assms by (auto simp add: fetch_v1_def fetch_v2_def)

lemma handler_not_POST:
  assumes "handler = fetch_v1 \<or> handler = fetch_v2"
    and "pathname (request_url request) \<noteq> lit ''/favicon.ico''"
    and "\<not> (request_method request = lit ''GET'' \<and> pathname (request_url request) = lit ''/'')"
    and "request_method request \<noteq> lit ''POST''"
  shows "handler request env =
     Done (new_Response (lit ''Method not allowed. Use POST with audio data.'') 405
             [(lit ''Content-Type'', lit ''text/plain'')])"
proof -
  have page: "(request_method request = lit ''GET'' \<and> pathname (request_url request) = lit ''/'') = False"
    using assms(3) by simp
  have "fetch_v1 request env =
     Done (new_Response (lit ''Method not allowed. Use POST with audio data.'') 405
             [(lit ''Content-Type'', lit ''text/plain'')])"
    unfolding fetch_v1_def page using assms(2,4) by simp
  moreover have "fetch_v2 request env =
     Done (new_Response (lit ''Method not allowed. Use POST with audio data.'') 405
             [(lit ''Content-Type'', lit ''text/plain'')])"
    unfolding fetch_v2_def page using assms(2,4) by simp
  ultimately show ?thesis
    using assms(1) by auto
qed

lemma fetch_v1_POST:
  assumes "pathname (request_url request) \<noteq> lit ''/favicon.ico''"
    and "request_method request = lit ''POST''"
  shows "fetch_v1 request env =
     (if falsy (SHEETS_SERVICE_KEY_JSON env) then
        Done (new_Response (lit ''Missing service credentials'') 500 [])
      else if arrayBuffer request = [] then
        Done (new_Response (lit ''No audio data provided'') 400 [])
      else
        Engine_max_arguments (\<lambda>max_args.
          if max_args < length (arrayBuffer request)
          then Throw (JsError (lit ''Maximum call stack size exceeded''))
          else
            bind (getAuthToken_v1 (SHEETS_SERVICE_KEY_JSON env)) (\<lambda>authToken.
              Call_fetch (stt_request authToken (base64_encode (arrayBuffer request)))
                (\<lambda>fetched.
            case fetched of
              Inl err \<Rightarrow>
                Done (new_Response (lit ''Fetch error: '' @ message err) 503 [])
            | Inr sttResponse \<Rightarrow>
                if \<not> ok sttResponse then
                  Done (new_Response (lit ''STT API error: '' @ api_text sttResponse) 500 [])
                else
                  (case api_json sttResponse of
                     Inl e \<Rightarrow> Throw e
                   | Inr result \<Rightarrow>
                       Done (new_Response
                               (JSON_stringify
                                  (JObject
                                     [(lit ''text'',
                                       JString
                                         (or_default (first_transcript result)
                                            (lit ''No transcription available'')))]))
                               200
                               [(lit ''Content-Type'', lit ''application/json''),
                                (lit ''Cache-Control'', lit ''no-store'')]))))))"
proof -
  have a: "(pathname (request_url request) = lit ''/favicon.ico'') = False"
    using assms by simp
  have b: "(lit ''POST'' = lit ''GET'' \<and> pathname (request_url request) = lit ''/'') = False"
    using POST_not_GET by simp
  have c: "(lit ''POST'' \<noteq> lit ''POST'') = False"
    by simp
  show ?thesis
    unfolding fetch_v1_def assms(2) a b c
    by (simp only: spread_then_btoa if_False)
qed

lemma fetch_v2_POST:
  assumes "pathname (request_url request) \<noteq> lit ''/favicon.ico''"
    and "request_method request = lit ''POST''"
  shows "fetch_v2 request env =
     (if falsy (SHEETS_SERVICE_KEY_JSON env) then
        Done (new_Response (lit ''Missing service credentials'') 500 [])
      else if arrayBuffer request = [] then
        Done (new_Response (lit ''No audio data provided'') 400 [])
      else
        bind (getAuthToken_v1 (SHEETS_SERVICE_KEY_JSON env)) (\<lambda>authToken.
          Call_fetch (stt_request authToken (base64_encode (arrayBuffer request)))
            (\<lambda>fetched.
            case fetched of
              Inl err \<Rightarrow>
                Done (new_Response (lit ''Fetch error: '' @ message err) 503 [])
            | Inr sttResponse \<Rightarrow>
                if \<not> ok sttResponse then
                  Done (new_Response (lit ''STT API error: '' @ api_text sttResponse) 500 [])
                else
                  (case api_json sttResponse of
                     Inl e \<Rightarrow> Throw e
                   | Inr result \<Rightarrow>
                       Done (new_Response
                               (JSON_stringify
                                  (JObject
                                     [(lit ''text'',
                                       JString
                                         (or_default (first_transcript result)
                                            (lit ''No transcription available'')))]))
                               200
                               [(lit ''Content-Type'', lit ''application/json''),
                                (lit ''Cache-Control'', lit ''no-store'')])))))"
proof -
  have a: "(pathname (request_url request) = lit ''/favicon.ico'') = False"
    using assms by simp
  have b: "(lit ''POST'' = lit ''GET'' \<and> pathname (request_url request) = lit ''/'') = False"
    using POST_not_GET by simp
  have c: "(lit ''POST'' \<noteq> lit ''POST'') = False"
    by simp
  show ?thesis
    unfolding fetch_v2_def assms(2) a b c
    by (simp only: Buffer_toString_base64_def getAuthToken_same if_False)
qed

text \<open>
  When the outbound call is made. The first variant makes it on a \<^verbatim>\<open>POST\<close> away from
  the icon path, with a configuration value and a body, when the body has no more bytes
  than the engine takes arguments, once the token exchange has returned. The second
  variant makes it under the same conditions whatever the length of the body. Either
  makes it once.
\<close>

lemma fetch_calls_v1:
  "fetch_calls w (fetch_v1 request env) =
     (if pathname (request_url request) \<noteq> lit ''/favicon.ico'' \<and>
         request_method request = lit ''POST'' \<and>
         \<not> falsy (SHEETS_SERVICE_KEY_JSON env) \<and> arrayBuffer request \<noteq> [] \<and>
         length (arrayBuffer request) \<le> max_arguments w
      then (case run w (getAuthToken_v1 (SHEETS_SERVICE_KEY_JSON env)) of
              Inl e \<Rightarrow> []
            | Inr authToken \<Rightarrow>
                [(stt_request authToken (base64_encode (arrayBuffer request)),
                  net_fetch w (stt_request authToken (base64_encode (arrayBuffer request))))])
      else [])"
proof (cases "pathname (request_url request) \<noteq> lit ''/favicon.ico'' \<and> request_method request = lit ''POST''")
  case True
  then show ?thesis
    by (simp add: fetch_v1_POST fetch_calls_bind fetch_calls_getAuthToken not_less
        split: sum.splits)
next
  case False
  then show ?thesis
    by (auto simp add: fetch_v1_def)
qed

lemma fetch_calls_v2:
  "fetch_calls w (fetch_v2 request env) =
     (if pathname (request_url request) \<noteq> lit ''/favicon.ico'' \<and>
         request_method request = lit ''POST'' \<and>
         \<not> falsy (SHEETS_SERVICE_KEY_JSON env) \<and> arrayBuffer request \<noteq> []
      then (case run w (getAuthToken_v1 (SHEETS_SERVICE_KEY_JSON env)) of
              Inl e \<Rightarrow> []
            | Inr authToken \<Rightarrow>
                [(stt_request authToken (base64_encode (arrayBuffer request)),
                  net_fetch w (stt_request authToken (base64_encode (arrayBuffer request))))])
      else [])"
proof (cases "pathname (request_url request) \<noteq> lit ''/favicon.ico'' \<and> request_method request = lit ''POST''")
  case True
  then show ?thesis
    by (simp add: fetch_v2_POST fetch_calls_bind fetch_calls_getAuthToken split: sum.splits)
next
  case False
  then show ?thesis
    by (auto simp add: fetch_v2_def)
qed

lemma run_v1_call:
  assumes "(rq, ans) \<in> set (fetch_calls w (fetch_v1 request env))"
  shows "run w (fetch_v1 request env) =
     (case ans of
        Inl err \<Rightarrow>
          Inr \<lparr>status = 503, headers = [], body = Some (lit ''Fetch error: '' @ message err)\<rparr>
      | Inr r \<Rightarrow>
          if \<not> ok r then
            Inr \<lparr>status = 500, headers = [], body = Some (lit ''STT API error: '' @ api_text r)\<rparr>
          else
            (case api_json r of
               Inl e \<Rightarrow> Inl e
             | Inr result \<Rightarrow>
                 Inr \<lparr>status = 200,
                      headers =
                        [(lit ''Content-Type'', lit ''application/json''),
                         (lit ''Cache-Control'', lit ''no-store'')],
                      body =
                        Some (JSON_stringify
                                (JObject
                                   [(lit ''text'',
                                     JString
                                       (or_default (first_transcript result)
                                          (lit ''No transcription available'')))]))\<rparr>))"
proof -
  have "pathname (request_url request) \<noteq> lit ''/favicon.ico'' \<and>
         request_method request = lit ''POST'' \<and>
         \<not> falsy (SHEETS_SERVICE_KEY_JSON env) \<and> arrayBuffer request \<noteq> [] \<and>
         length (arrayBuffer request) \<le> max_arguments w"
  proof (rule ccontr)
    assume "\<not> ?thesis"
    then have "fetch_calls w (fetch_v1 request env) = []"
      by (simp only: fetch_calls_v1 if_False)
    with assms show False by simp
  qed
  then have g: "pathname (request_url request) \<noteq> lit ''/favicon.ico''"
    "request_method request = lit ''POST''"
    "\<not> falsy (SHEETS_SERVICE_KEY_JSON env)" "arrayBuffer request \<noteq> []"
    "length (arrayBuffer request) \<le> max_arguments w"
    by simp_all
  from assms g have "(rq, ans) \<in> set (case run w (getAuthToken_v1 (SHEETS_SERVICE_KEY_JSON env)) of
              Inl e \<Rightarrow> []
            | Inr authToken \<Rightarrow>
                [(stt_request authToken (base64_encode (arrayBuffer request)),
                  net_fetch w (stt_request authToken (base64_encode (arrayBuffer request))))])"
    by (simp add: fetch_calls_v1)
  then obtain authToken where t: "run w (getAuthToken_v1 (SHEETS_SERVICE_KEY_JSON env)) = Inr authToken"
    and rq: "rq = stt_request authToken (base64_encode (arrayBuffer request))"
    and ans: "ans = net_fetch w rq"
    by (cases "run w (getAuthToken_v1 (SHEETS_SERVICE_KEY_JSON env))") auto
  show ?thesis
    using g(5)
    by (simp add: fetch_v1_POST [OF g(1,2)] g(3,4) run_bind t rq [symmetric] ans [symmetric]
        new_Response_def not_less split: sum.splits)
qed

lemma run_v2_call:
  assumes "(rq, ans) \<in> set (fetch_calls w (fetch_v2 request env))"
  shows "run w (fetch_v2 request env) =
     (case ans of
        Inl err \<Rightarrow>
          Inr \<lparr>status = 503, headers = [], body = Some (lit ''Fetch error: '' @ message err)\<rparr>
      | Inr r \<Rightarrow>
          if \<not> ok r then
            Inr \<lparr>status = 500, headers = [], body = Some (lit ''STT API error: '' @ api_text r)\<rparr>
          else
            (case api_json r of
               Inl e \<Rightarrow> Inl e
             | Inr result \<Rightarrow>
                 Inr \<lparr>status = 200,
                      headers =
                        [(lit ''Content-Type'', lit ''application/json''),
                         (lit ''Cache-Control'', lit ''no-store'')],
                      body =
                        Some (JSON_stringify
                                (JObject
                                   [(lit ''text'',
                                     JString
                                       (or_default (first_transcript result)
                                          (lit ''No transcription available'')))]))\<rparr>))"
proof -
  have "pathname (request_url request) \<noteq> lit ''/favicon.ico'' \<and>
         request_method request = lit ''POST'' \<and>
         \<not> falsy (SHEETS_SERVICE_KEY_JSON env) \<and> arrayBuffer request \<noteq> []"
  proof (rule ccontr)
    assume "\<not> ?thesis"
    then have "fetch_calls w (fetch_v2 request env) = []"
      by (simp only: fetch_calls_v2 if_False)
    with assms show False by simp
  qed
  then have g: "pathname (request_url request) \<noteq> lit ''/favicon.ico''"
    "request_method request = lit ''POST''"
    "\<not> falsy (SHEETS_SERVICE_KEY_JSON env)" "arrayBuffer request \<noteq> []"
    by simp_all
  from assms g have "(rq, ans) \<in> set (case run w (getAuthToken_v1 (SHEETS_SERVICE_KEY_JSON env)) of
              Inl e \<Rightarrow> []
            | Inr authToken \<Rightarrow>
                [(stt_request authToken (base64_encode (arrayBuffer request)),
                  net_fetch w (stt_request authToken (base64_encode (arrayBuffer request))))])"
    by (simp add: fetch_calls_v2)
  then obtain authToken where t: "run w (getAuthToken_v1 (SHEETS_SERVICE_KEY_JSON env)) = Inr authToken"
    and rq: "rq = stt_request authToken (base64_encode (arrayBuffer request))"
    and ans: "ans = net_fetch w rq"
    by (cases "run w (getAuthToken_v1 (SHEETS_SERVICE_KEY_JSON env))") auto
  show ?thesis
    by (simp add: fetch_v2_POST [OF g(1,2)] g(3,4) run_bind t rq [symmetric] ans [symmetric]
        new_Response_def split: sum.splits)
qed

text \<open>What either variant returns once its outbound call has been answered.\<close>

lemma handler_call:
  assumes "handler = fetch_v1 \<or> handler = fetch_v2"
    and "(rq, ans) \<in> set (fetch_calls w (handler request env))"
  shows "run w (handler request env) =
     (case ans of
        Inl err \<Rightarrow>
          Inr \<lparr>status = 503, headers = [], body = Some (lit ''Fetch error: '' @ message err)\<rparr>
      | Inr r \<Rightarrow>
          if \<not> ok r then
            Inr \<lparr>status = 500, headers = [], body = Some (lit ''STT API error: '' @ api_text r)\<rparr>
          else
            (case api_json r of
               Inl e \<Rightarrow> Inl e
             | Inr result \<Rightarrow>
                 Inr \<lparr>status = 200,
                      headers =
                        [(lit ''Content-Type'', lit ''application/json''),
                         (lit ''Cache-Control'', lit ''no-store'')],
                      body =
                        Some (JSON_stringify
                                (JObject
                                   [(lit ''text'',
                                     JString
                                       (or_default (first_transcript result)
                                          (lit ''No transcription available'')))]))\<rparr>))"
  using assms run_v1_call [of rq ans w request env] run_v2_call [of rq ans w request env]
  by blast

lemma handler_POST_early:
  assumes "handler = fetch_v1 \<or> handler = fetch_v2"
    and "pathname (request_url request) \<noteq> lit ''/favicon.ico''"
    and "request_method request = lit ''POST''"
    and "falsy (SHEETS_SERVICE_KEY_JSON env) \<or> arrayBuffer request = []"
  shows "handler request env =
     (if falsy (SHEETS_SERVICE_KEY_JSON env)
      then Done (new_Response (lit ''Missing service credentials'') 500 [])
      else Done (new_Response (lit ''No audio data provided'') 400 []))"
  using assms(1,4)
  by (auto simp add: fetch_v1_POST [OF assms(2,3)] fetch_v2_POST [OF assms(2,3)])

text \<open>
  Away from the page branch the two variants return the same and make the same outbound
  call, as long as the body has no more bytes than the engine takes arguments.
\<close>

lemma variants_agree_within_bound:
  assumes "\<not> (request_method request = lit ''GET'' \<and> pathname (request_url request) = lit ''/'')"
    and "length (arrayBuffer request) \<le> max_arguments w"
  shows "run w (fetch_v1 request env) = run w (fetch_v2 request env) \<and>
     fetch_calls w (fetch_v1 request env) = fetch_calls w (fetch_v2 request env)"
proof (cases "pathname (request_url request) \<noteq> lit ''/favicon.ico'' \<and> request_method request = lit ''POST''")
  case True
  then show ?thesis
    using assms(2) by (simp add: fetch_v1_POST fetch_v2_POST not_less)
next
  case False
  have page: "(request_method request = lit ''GET'' \<and> pathname (request_url request) = lit ''/'') = False"
    using assms(1) by simp
  from False show ?thesis
    unfolding fetch_v1_def fetch_v2_def page by auto
qed

text \<open>
  Beyond the bound the first variant throws at line 123, before the token exchange and
  before any outbound call.
\<close>

lemma spread_beyond_bound:
  assumes "pathname (request_url request) \<noteq> lit ''/favicon.ico''"
    and "request_method request = lit ''POST''"
    and "\<not> falsy (SHEETS_SERVICE_KEY_JSON env)"
    and "max_arguments w < length (arrayBuffer request)"
  shows "run w (fetch_v1 request env) = Inl (JsError (lit ''Maximum call stack size exceeded'')) \<and>
     fetch_calls w (fetch_v1 request env) = []"
proof -
  have "arrayBuffer request \<noteq> []"
    using assms(4) by auto
  then show ?thesis
    using assms(3,4) by (simp add: fetch_v1_POST [OF assms(1,2)])
qed

text \<open>The two literal bodies of the success response that the claims name.\<close>

lemma stringify_hello:
  "JSON_stringify (JObject [(lit ''text'', JString (lit ''hello''))]) = lit ''{\"text\":\"hello\"}''"
  by (simp add: lit_def QuoteJSONString_def quote_unit_def is_leading_surrogate_def
      is_trailing_surrogate_def)

lemma stringify_fallback:
  "JSON_stringify (JObject [(lit ''text'', JString (lit ''No transcription available''))]) =
     lit ''{\"text\":\"No transcription available\"}''"
  by (simp add: lit_def QuoteJSONString_def quote_unit_def is_leading_surrogate_def
      is_trailing_surrogate_def)

text \<open>The payload sent for the audio bytes \<open>4D 61 6E\<close>, as \<^verbatim>\<open>JSON.stringify\<close> writes it.\<close>

lemma stt_request_body_example:
  "out_body (stt_request (Str (lit ''token'')) (base64_encode [0x4D, 0x61, 0x6E])) =
     lit ''{\"config\":{\"encoding\":\"MP3\",\"sampleRateHertz\":16000,\"languageCode\":\"en-US\"},\"audio\":{\"content\":\"TWFu\"}}''"
  by (simp add: stt_request_def payload_def lit_def base64_char_def base64_alphabet_def decimal.simps
      QuoteJSONString_def quote_unit_def is_leading_surrogate_def is_trailing_surrogate_def)

subsection \<open>The claims\<close>

text \<open>
  In the statements below \<open>handler\<close> is either variant, \<open>run w (handler request env)\<close>
  is what the handler returns (\<open>Inr\<close>) or throws (\<open>Inl\<close>) in the world \<open>w\<close>, and
  \<open>(rq, answer) \<in> set (fetch_calls w (handler request env))\<close> says that the handler
  made the outbound call \<open>rq\<close> to the speech API and the call was answered by \<open>answer\<close>:
  \<open>Inl err\<close> when it threw, \<open>Inr sttResponse\<close> when it returned a response. By
  \<open>fetch_calls_v1\<close> and \<open>fetch_calls_v2\<close> the call is made exactly on a \<^verbatim>\<open>POST\<close>
  to a path other than \<^verbatim>\<open>/favicon.ico\<close> with the configuration value present and
  non-empty, a non-empty body (in the first variant, one within the engine's bound on
  arguments), and a token exchange that returned. The worlds of the examples have an
  engine that takes 125000 arguments; the number stands for whatever the engine's bound
  is.
\<close>

text \<open>
  \<^bold>\<open>C1\<close>, as amended. For every \<^verbatim>\<open>POST\<close> request to a path other than
  \<^verbatim>\<open>/favicon.ico\<close> whose body is empty, when the credentials configuration value is
  present and non-empty, the handler returns status 400 with the body
  \<^verbatim>\<open>No audio data provided\<close>. The check of the configuration value comes first in
  the source (line 112, before line 117), and the check of the icon path before both.
\<close>

theorem empty_body_400:
  assumes "handler = fetch_v1 \<or> handler = fetch_v2"
    and "request_method request = lit ''POST''"
    and "pathname (request_url request) \<noteq> lit ''/favicon.ico''"
    and "\<not> falsy (SHEETS_SERVICE_KEY_JSON env)"
    and "arrayBuffer request = []"
  shows "run w (handler request env) =
     Inr \<lparr>status = 400, headers = [], body = Some (lit ''No audio data provided'')\<rparr>"
  using assms(4) by (simp add: handler_POST_early [OF assms(1,3,2)] assms(5) new_Response_def)

theorem empty_body_400_witness:
  "run \<lparr>max_arguments = 125000,
        JSON_parse = \<lambda>s. Inl (JsError []), authorize = \<lambda>opts. Inl (JsError []),
        net_fetch = \<lambda>rq. Inl (JsError [])\<rparr>
     (fetch_v1
        \<lparr>request_method = lit ''POST'',
         request_url = \<lparr>pathname = lit ''/'', search = []\<rparr>,
         request_headers = [],
         arrayBuffer = []\<rparr>
        \<lparr>SHEETS_SERVICE_KEY_JSON = Some (lit ''{}'')\<rparr>) =
     Inr \<lparr>status = 400, headers = [], body = Some (lit ''No audio data provided'')\<rparr>"
  using empty_body_400 [of fetch_v1
        "\<lparr>request_method = lit ''POST'',
         request_url = \<lparr>pathname = lit ''/'', search = []\<rparr>,
         request_headers = [],
         arrayBuffer = []\<rparr>"
        "\<lparr>SHEETS_SERVICE_KEY_JSON = Some (lit ''{}'')\<rparr>"]
  by (simp add: root_not_favicon falsy_def lit_def)

text \<open>
  C1 as written fails: a \<^verbatim>\<open>POST\<close> with an empty body and no configuration value is
  answered with 500 and \<^verbatim>\<open>Missing service credentials\<close>, and a \<^verbatim>\<open>POST\<close> with an
  empty body to the icon path is redirected.
\<close>

theorem empty_body_counterexample:
  "fetch_v1
     \<lparr>request_method = lit ''POST'',
         request_url = \<lparr>pathname = lit ''/'', search = []\<rparr>,
         request_headers = [],
         arrayBuffer = []\<rparr>
     \<lparr>SHEETS_SERVICE_KEY_JSON = None\<rparr> =
   Done \<lparr>status = 500, headers = [], body = Some (lit ''Missing service credentials'')\<rparr> \<and>
   fetch_v1
     \<lparr>request_method = lit ''POST'',
         request_url = \<lparr>pathname = lit ''/favicon.ico'', search = []\<rparr>,
         request_headers = [],
         arrayBuffer = []\<rparr>
     \<lparr>SHEETS_SERVICE_KEY_JSON = Some (lit ''{}'')\<rparr> =
   Done \<lparr>status = 302,
          headers = [(lit ''Location'', lit ''https://jacklehamster.github.io/stt-worker/icon.png'')],
          body = None\<rparr>"
  by (simp add: fetch_v1_def new_Response_def Response_redirect_def falsy_def POST_not_GET
      root_not_favicon)

text \<open>
  \<^bold>\<open>C2\<close>. For a \<^verbatim>\<open>POST\<close> request whose body is 10 bytes, with credentials
  configured, when the handler's call to the speech API is answered by a successful
  response whose JSON is
  \<^verbatim>\<open>{results:[{alternatives:[{transcript:"hello"}]}]}\<close>, the handler returns status
  200 with the body \<^verbatim>\<open>{"text":"hello"}\<close>.
\<close>

theorem hello_scenario:
  assumes "handler = fetch_v1 \<or> handler = fetch_v2"
    and "request_method request = lit ''POST''"
    and "length (arrayBuffer request) = 10"
    and "\<not> falsy (SHEETS_SERVICE_KEY_JSON env)"
    and "(rq, Inr sttResponse) \<in> set (fetch_calls w (handler request env))"
    and "ok sttResponse"
    and "api_json sttResponse =
           Inr \<lparr>results = Some [\<lparr>alternatives = Some [\<lparr>transcript = Some (lit ''hello'')\<rparr>]\<rparr>]\<rparr>"
  shows "run w (handler request env) =
     Inr \<lparr>status = 200,
          headers =
            [(lit ''Content-Type'', lit ''application/json''),
             (lit ''Cache-Control'', lit ''no-store'')],
          body = Some (lit ''{\"text\":\"hello\"}'')\<rparr>"
proof -
  have "first_transcript
          \<lparr>results = Some [\<lparr>alternatives = Some [\<lparr>transcript = Some (lit ''hello'')\<rparr>]\<rparr>]\<rparr> =
        Some (lit ''hello'')"
    by (simp add: first_transcript_def)
  moreover have "lit ''hello'' \<noteq> []"
    by (simp add: lit_def)
  ultimately show ?thesis
    using handler_call [OF assms(1,5)] assms(6,7)
    by (simp add: or_default_def stringify_hello del: JSON_stringify.simps)
qed

theorem hello_scenario_witness:
  "run \<lparr>max_arguments = 125000,
        JSON_parse = \<lambda>s. Inr (Parsed (Str (lit ''relay@example.com'')) (Str (lit ''key''))),
        authorize = \<lambda>opts. Inr \<lparr>access_token = Str (lit ''token'')\<rparr>,
        net_fetch = \<lambda>rq. Inr \<lparr>api_status = 200, api_text = [], api_json = 
                 Inr \<lparr>results = Some [\<lparr>alternatives = Some [\<lparr>transcript = Some (lit ''hello'')\<rparr>]\<rparr>]\<rparr>\<rparr>\<rparr>
     (fetch_v1
        \<lparr>request_method = lit ''POST'',
         request_url = \<lparr>pathname = lit ''/'', search = []\<rparr>,
         request_headers = [],
         arrayBuffer = [0, 255, 16, 32, 7, 200, 1, 99, 128, 64]\<rparr>
        \<lparr>SHEETS_SERVICE_KEY_JSON = Some (lit ''{}'')\<rparr>) =
     Inr \<lparr>status = 200,
          headers =
            [(lit ''Content-Type'', lit ''application/json''),
             (lit ''Cache-Control'', lit ''no-store'')],
          body = Some (lit ''{\"text\":\"hello\"}'')\<rparr>"
  using hello_scenario [of fetch_v1
        "\<lparr>request_method = lit ''POST'',
         request_url = \<lparr>pathname = lit ''/'', search = []\<rparr>,
         request_headers = [],
         arrayBuffer = [0, 255, 16, 32, 7, 200, 1, 99, 128, 64]\<rparr>"
        "\<lparr>SHEETS_SERVICE_KEY_JSON = Some (lit ''{}'')\<rparr>"
        "stt_request (Str (lit ''token'')) (base64_encode [0, 255, 16, 32, 7, 200, 1, 99, 128, 64])"
        "\<lparr>api_status = 200, api_text = [], api_json = 
                 Inr \<lparr>results = Some [\<lparr>alternatives = Some [\<lparr>transcript = Some (lit ''hello'')\<rparr>]\<rparr>]\<rparr>\<rparr>"
        "\<lparr>max_arguments = 125000,
        JSON_parse = \<lambda>s. Inr (Parsed (Str (lit ''relay@example.com'')) (Str (lit ''key''))),
        authorize = \<lambda>opts. Inr \<lparr>access_token = Str (lit ''token'')\<rparr>,
        net_fetch = \<lambda>rq. Inr \<lparr>api_status = 200, api_text = [], api_json = 
                 Inr \<lparr>results = Some [\<lparr>alternatives = Some [\<lparr>transcript = Some (lit ''hello'')\<rparr>]\<rparr>]\<rparr>\<rparr>\<rparr>"]
  by (simp add: fetch_calls_v1 root_not_favicon falsy_def getAuthToken_v1_def ok_def)
     (simp add: lit_def)

text \<open>
  \<^bold>\<open>C3\<close>. For every \<^verbatim>\<open>POST\<close> request with a non-empty body where the call to the
  speech API succeeds (it is answered by a response with a success status and a JSON
  body), the handler returns status 200, the headers
  \<^verbatim>\<open>Content-Type: application/json\<close> and \<^verbatim>\<open>Cache-Control: no-store\<close>, and as body the
  JSON object with the one field \<^verbatim>\<open>text\<close>. The field is computed from the transcript of
  the first alternative of the first result and from nothing else in the answer; when
  that transcript is absent, the body is \<^verbatim>\<open>{"text":"No transcription available"}\<close>.
\<close>

theorem transcription_response:
  assumes "handler = fetch_v1 \<or> handler = fetch_v2"
    and "request_method request = lit ''POST''"
    and "arrayBuffer request \<noteq> []"
    and "(rq, Inr sttResponse) \<in> set (fetch_calls w (handler request env))"
    and "ok sttResponse"
    and "api_json sttResponse = Inr result"
  shows "run w (handler request env) =
       Inr \<lparr>status = 200,
            headers =
              [(lit ''Content-Type'', lit ''application/json''),
               (lit ''Cache-Control'', lit ''no-store'')],
            body =
              Some (JSON_stringify
                      (JObject
                         [(lit ''text'',
                           JString
                             (case results result of
                                Some (r # _) \<Rightarrow>
                                  (case alternatives r of
                                     Some (a # _) \<Rightarrow>
                                       (case transcript a of
                                          Some t \<Rightarrow>
                                            if t = [] then lit ''No transcription available'' else t
                                        | None \<Rightarrow> lit ''No transcription available'')
                                   | _ \<Rightarrow> lit ''No transcription available'')
                              | _ \<Rightarrow> lit ''No transcription available''))]))\<rparr> \<and>
     (first_transcript result = None \<longrightarrow>
        run w (handler request env) =
          Inr \<lparr>status = 200,
               headers =
                 [(lit ''Content-Type'', lit ''application/json''),
                  (lit ''Cache-Control'', lit ''no-store'')],
               body = Some (lit ''{\"text\":\"No transcription available\"}'')\<rparr>)"
proof -
  have r: "run w (handler request env) =
       Inr \<lparr>status = 200,
            headers =
              [(lit ''Content-Type'', lit ''application/json''),
               (lit ''Cache-Control'', lit ''no-store'')],
            body =
              Some (JSON_stringify
                      (JObject
                         [(lit ''text'',
                           JString
                             (or_default (first_transcript result)
                                (lit ''No transcription available'')))]))\<rparr>"
    using handler_call [OF assms(1,4)] assms(5,6) by (simp del: JSON_stringify.simps)
  have t: "or_default (first_transcript result) (lit ''No transcription available'') =
      (case results result of
         Some (r # _) \<Rightarrow>
           (case alternatives r of
              Some (a # _) \<Rightarrow>
                (case transcript a of
                   Some t \<Rightarrow> if t = [] then lit ''No transcription available'' else t
                 | None \<Rightarrow> lit ''No transcription available'')
            | _ \<Rightarrow> lit ''No transcription available'')
       | _ \<Rightarrow> lit ''No transcription available'')"
    by (simp add: or_default_def first_transcript_def split: option.splits list.splits)
  have f: "or_default None (lit ''No transcription available'') = lit ''No transcription available''"
    by (simp add: or_default_def)
  show ?thesis
  proof (intro conjI impI)
    show "run w (handler request env) =
       Inr \<lparr>status = 200,
            headers =
              [(lit ''Content-Type'', lit ''application/json''),
               (lit ''Cache-Control'', lit ''no-store'')],
            body =
              Some (JSON_stringify
                      (JObject
                         [(lit ''text'',
                           JString
                             (case results result of
                                Some (r # _) \<Rightarrow>
                                  (case alternatives r of
                                     Some (a # _) \<Rightarrow>
                                       (case transcript a of
                                          Some t \<Rightarrow>
                                            if t = [] then lit ''No transcription available'' else t
                                        | None \<Rightarrow> lit ''No transcription available'')
                                   | _ \<Rightarrow> lit ''No transcription available'')
                              | _ \<Rightarrow> lit ''No transcription available''))]))\<rparr>"
      by (simp only: r t)
  next
    assume "first_transcript result = None"
    then show "run w (handler request env) =
          Inr \<lparr>status = 200,
               headers =
                 [(lit ''Content-Type'', lit ''application/json''),
                  (lit ''Cache-Control'', lit ''no-store'')],
               body = Some (lit ''{\"text\":\"No transcription available\"}'')\<rparr>"
      by (simp only: r f stringify_fallback)
  qed
qed

theorem transcription_response_witness:
  "run \<lparr>max_arguments = 125000,
        JSON_parse = \<lambda>s. Inr (Parsed (Str (lit ''relay@example.com'')) (Str (lit ''key''))),
        authorize = \<lambda>opts. Inr \<lparr>access_token = Str (lit ''token'')\<rparr>,
        net_fetch = \<lambda>rq. Inr \<lparr>api_status = 200, api_text = [], api_json = Inr \<lparr>results = None\<rparr>\<rparr>\<rparr>
     (fetch_v1
        \<lparr>request_method = lit ''POST'',
         request_url = \<lparr>pathname = lit ''/'', search = []\<rparr>,
         request_headers = [],
         arrayBuffer = [1, 2, 3]\<rparr>
        \<lparr>SHEETS_SERVICE_KEY_JSON = Some (lit ''{}'')\<rparr>) =
     Inr \<lparr>status = 200,
          headers =
            [(lit ''Content-Type'', lit ''application/json''),
             (lit ''Cache-Control'', lit ''no-store'')],
          body = Some (lit ''{\"text\":\"No transcription available\"}'')\<rparr>"
  using transcription_response [of fetch_v1
        "\<lparr>request_method = lit ''POST'',
         request_url = \<lparr>pathname = lit ''/'', search = []\<rparr>,
         request_headers = [],
         arrayBuffer = [1, 2, 3]\<rparr>"
        "stt_request (Str (lit ''token'')) (base64_encode [1, 2, 3])"
        "\<lparr>api_status = 200, api_text = [], api_json = Inr \<lparr>results = None\<rparr>\<rparr>"
        "\<lparr>max_arguments = 125000,
        JSON_parse = \<lambda>s. Inr (Parsed (Str (lit ''relay@example.com'')) (Str (lit ''key''))),
        authorize = \<lambda>opts. Inr \<lparr>access_token = Str (lit ''token'')\<rparr>,
        net_fetch = \<lambda>rq. Inr \<lparr>api_status = 200, api_text = [], api_json = Inr \<lparr>results = None\<rparr>\<rparr>\<rparr>"
        "\<lparr>SHEETS_SERVICE_KEY_JSON = Some (lit ''{}'')\<rparr>"
        "\<lparr>results = None\<rparr>"]
  by (simp add: fetch_calls_v1 root_not_favicon falsy_def getAuthToken_v1_def ok_def first_transcript_def
      lit_def QuoteJSONString_def quote_unit_def is_leading_surrogate_def is_trailing_surrogate_def)

text \<open>
  \<^bold>\<open>C4\<close>. For every \<^verbatim>\<open>POST\<close> request (non-empty body, credentials configured) where
  the outbound call to the speech API throws, the handler returns status 503 and a body
  that starts with \<^verbatim>\<open>Fetch error:\<close> and contains the message of the thrown error.
\<close>

theorem fetch_error_503:
  assumes "handler = fetch_v1 \<or> handler = fetch_v2"
    and "request_method request = lit ''POST''"
    and "arrayBuffer request \<noteq> []"
    and "\<not> falsy (SHEETS_SERVICE_KEY_JSON env)"
    and "(rq, Inl err) \<in> set (fetch_calls w (handler request env))"
  shows "run w (handler request env) =
       Inr \<lparr>status = 503, headers = [], body = Some (lit ''Fetch error: '' @ message err)\<rparr> \<and>
     prefix (lit ''Fetch error:'') (lit ''Fetch error: '' @ message err) \<and>
     sublist (message err) (lit ''Fetch error: '' @ message err)"
proof -
  have "lit ''Fetch error: '' = lit ''Fetch error:'' @ lit '' ''"
    by (simp add: lit_def)
  then have "prefix (lit ''Fetch error:'') (lit ''Fetch error: '' @ message err)"
    by simp
  moreover have "sublist (message err) (lit ''Fetch error: '' @ message err)"
    by simp
  ultimately show ?thesis
    using handler_call [OF assms(1,5)] by simp
qed

theorem fetch_error_503_witness:
  "run \<lparr>max_arguments = 125000,
        JSON_parse = \<lambda>s. Inr (Parsed (Str (lit ''relay@example.com'')) (Str (lit ''key''))),
        authorize = \<lambda>opts. Inr \<lparr>access_token = Str (lit ''token'')\<rparr>,
        net_fetch = \<lambda>rq. Inl (JsError (lit ''connection refused''))\<rparr>
     (fetch_v1
        \<lparr>request_method = lit ''POST'',
         request_url = \<lparr>pathname = lit ''/'', search = []\<rparr>,
         request_headers = [],
         arrayBuffer = [1, 2, 3]\<rparr>
        \<lparr>SHEETS_SERVICE_KEY_JSON = Some (lit ''{}'')\<rparr>) =
     Inr \<lparr>status = 503, headers = [], body = Some (lit ''Fetch error: connection refused'')\<rparr>"
  using fetch_error_503 [of fetch_v1
        "\<lparr>request_method = lit ''POST'',
         request_url = \<lparr>pathname = lit ''/'', search = []\<rparr>,
         request_headers = [],
         arrayBuffer = [1, 2, 3]\<rparr>"
        "\<lparr>SHEETS_SERVICE_KEY_JSON = Some (lit ''{}'')\<rparr>"
        "stt_request (Str (lit ''token'')) (base64_encode [1, 2, 3])"
        "JsError (lit ''connection refused'')"
        "\<lparr>max_arguments = 125000,
        JSON_parse = \<lambda>s. Inr (Parsed (Str (lit ''relay@example.com'')) (Str (lit ''key''))),
        authorize = \<lambda>opts. Inr \<lparr>access_token = Str (lit ''token'')\<rparr>,
        net_fetch = \<lambda>rq. Inl (JsError (lit ''connection refused''))\<rparr>"]
  by (simp add: fetch_calls_v1 root_not_favicon falsy_def getAuthToken_v1_def lit_def)

text \<open>
  \<^bold>\<open>C5\<close>. For every \<^verbatim>\<open>POST\<close> request (non-empty body, credentials configured) where
  the speech API answers with a status outside 200--299, the handler returns status 500
  and a body that contains the text of the API's answer.
\<close>

theorem api_error_500:
  assumes "handler = fetch_v1 \<or> handler = fetch_v2"
    and "request_method request = lit ''POST''"
    and "arrayBuffer request \<noteq> []"
    and "\<not> falsy (SHEETS_SERVICE_KEY_JSON env)"
    and "(rq, Inr sttResponse) \<in> set (fetch_calls w (handler request env))"
    and "\<not> ok sttResponse"
  shows "run w (handler request env) =
       Inr \<lparr>status = 500, headers = [],
            body = Some (lit ''STT API error: '' @ api_text sttResponse)\<rparr> \<and>
     sublist (api_text sttResponse) (lit ''STT API error: '' @ api_text sttResponse)"
  using handler_call [OF assms(1,5)] assms(6) by simp

theorem api_error_500_witness:
  "run \<lparr>max_arguments = 125000,
        JSON_parse = \<lambda>s. Inr (Parsed (Str (lit ''relay@example.com'')) (Str (lit ''key''))),
        authorize = \<lambda>opts. Inr \<lparr>access_token = Str (lit ''token'')\<rparr>,
        net_fetch = \<lambda>rq. 
          Inr \<lparr>api_status = 403, api_text = lit ''permission denied'', api_json = Inl (JsError [])\<rparr>\<rparr>
     (fetch_v1
        \<lparr>request_method = lit ''POST'',
         request_url = \<lparr>pathname = lit ''/'', search = []\<rparr>,
         request_headers = [],
         arrayBuffer = [1, 2, 3]\<rparr>
        \<lparr>SHEETS_SERVICE_KEY_JSON = Some (lit ''{}'')\<rparr>) =
     Inr \<lparr>status = 500, headers = [],
          body = Some (lit ''STT API error: permission denied'')\<rparr>"
  using api_error_500 [of fetch_v1
        "\<lparr>request_method = lit ''POST'',
         request_url = \<lparr>pathname = lit ''/'', search = []\<rparr>,
         request_headers = [],
         arrayBuffer = [1, 2, 3]\<rparr>"
        "\<lparr>SHEETS_SERVICE_KEY_JSON = Some (lit ''{}'')\<rparr>"
        "stt_request (Str (lit ''token'')) (base64_encode [1, 2, 3])"
        "\<lparr>api_status = 403, api_text = lit ''permission denied'', api_json = Inl (JsError [])\<rparr>"
        "\<lparr>max_arguments = 125000,
        JSON_parse = \<lambda>s. Inr (Parsed (Str (lit ''relay@example.com'')) (Str (lit ''key''))),
        authorize = \<lambda>opts. Inr \<lparr>access_token = Str (lit ''token'')\<rparr>,
        net_fetch = \<lambda>rq. 
          Inr \<lparr>api_status = 403, api_text = lit ''permission denied'', api_json = Inl (JsError [])\<rparr>\<rparr>"]
  by (simp add: fetch_calls_v1 root_not_favicon falsy_def getAuthToken_v1_def ok_def)
     (simp add: lit_def)

text \<open>
  \<^bold>\<open>C6\<close>, as amended. For every \<^verbatim>\<open>POST\<close> request to a path other than
  \<^verbatim>\<open>/favicon.ico\<close>, when the credentials configuration value is absent, the handler
  returns status 500 with the body \<^verbatim>\<open>Missing service credentials\<close>.
\<close>

theorem missing_credentials_500:
  assumes "handler = fetch_v1 \<or> handler = fetch_v2"
    and "request_method request = lit ''POST''"
    and "pathname (request_url request) \<noteq> lit ''/favicon.ico''"
    and "SHEETS_SERVICE_KEY_JSON env = None"
  shows "run w (handler request env) =
     Inr \<lparr>status = 500, headers = [], body = Some (lit ''Missing service credentials'')\<rparr>"
proof -
  have "falsy (SHEETS_SERVICE_KEY_JSON env)"
    using assms(4) by (simp add: falsy_def)
  then show ?thesis
    by (simp add: handler_POST_early [OF assms(1,3,2)] new_Response_def)
qed

theorem missing_credentials_500_witness:
  "run \<lparr>max_arguments = 125000,
        JSON_parse = \<lambda>s. Inl (JsError []), authorize = \<lambda>opts. Inl (JsError []),
        net_fetch = \<lambda>rq. Inl (JsError [])\<rparr>
     (fetch_v1
        \<lparr>request_method = lit ''POST'',
         request_url = \<lparr>pathname = lit ''/'', search = []\<rparr>,
         request_headers = [],
         arrayBuffer = [1, 2, 3]\<rparr>
        \<lparr>SHEETS_SERVICE_KEY_JSON = None\<rparr>) =
     Inr \<lparr>status = 500, headers = [], body = Some (lit ''Missing service credentials'')\<rparr>"
  using missing_credentials_500 [of fetch_v1
        "\<lparr>request_method = lit ''POST'',
         request_url = \<lparr>pathname = lit ''/'', search = []\<rparr>,
         request_headers = [],
         arrayBuffer = [1, 2, 3]\<rparr>"
        "\<lparr>SHEETS_SERVICE_KEY_JSON = None\<rparr>"]
  by (simp add: root_not_favicon)

text \<open>
  C6 as written fails: a \<^verbatim>\<open>POST\<close> to the icon path is redirected whether or not the
  configuration value is there (line 8 comes before line 112).
\<close>

theorem missing_credentials_counterexample:
  "fetch_v1
     \<lparr>request_method = lit ''POST'',
         request_url = \<lparr>pathname = lit ''/favicon.ico'', search = []\<rparr>,
         request_headers = [],
         arrayBuffer = [1, 2, 3]\<rparr>
     \<lparr>SHEETS_SERVICE_KEY_JSON = None\<rparr> =
   Done \<lparr>status = 302,
          headers = [(lit ''Location'', lit ''https://jacklehamster.github.io/stt-worker/icon.png'')],
          body = None\<rparr>"
  by (simp add: fetch_v1_def Response_redirect_def)

text \<open>
  \<^bold>\<open>C7\<close>, as amended. For every request whose path is not \<^verbatim>\<open>/favicon.ico\<close>, that is
  not a \<^verbatim>\<open>GET\<close> to the root path, and whose method is not \<^verbatim>\<open>POST\<close>, the handler
  returns status 405, the header \<^verbatim>\<open>Content-Type: text/plain\<close>, and the body
  \<^verbatim>\<open>Method not allowed. Use POST with audio data.\<close>
\<close>

theorem method_not_allowed:
  assumes "handler = fetch_v1 \<or> handler = fetch_v2"
    and "pathname (request_url request) \<noteq> lit ''/favicon.ico''"
    and "\<not> (request_method request = lit ''GET'' \<and> pathname (request_url request) = lit ''/'')"
    and "request_method request \<noteq> lit ''POST''"
  shows "run w (handler request env) =
     Inr \<lparr>status = 405,
          headers = [(lit ''Content-Type'', lit ''text/plain'')],
          body = Some (lit ''Method not allowed. Use POST with audio data.'')\<rparr>"
  by (simp add: handler_not_POST [OF assms] new_Response_def)

theorem method_not_allowed_witness:
  "run \<lparr>max_arguments = 125000,
        JSON_parse = \<lambda>s. Inl (JsError []), authorize = \<lambda>opts. Inl (JsError []),
        net_fetch = \<lambda>rq. Inl (JsError [])\<rparr>
     (fetch_v1
        \<lparr>request_method = lit ''PUT'',
         request_url = \<lparr>pathname = lit ''/'', search = []\<rparr>,
         request_headers = [],
         arrayBuffer = [1, 2, 3]\<rparr>
        \<lparr>SHEETS_SERVICE_KEY_JSON = Some (lit ''{}'')\<rparr>) =
     Inr \<lparr>status = 405,
          headers = [(lit ''Content-Type'', lit ''text/plain'')],
          body = Some (lit ''Method not allowed. Use POST with audio data.'')\<rparr>"
  using method_not_allowed [of fetch_v1
        "\<lparr>request_method = lit ''PUT'',
         request_url = \<lparr>pathname = lit ''/'', search = []\<rparr>,
         request_headers = [],
         arrayBuffer = [1, 2, 3]\<rparr>"]
  by (simp add: lit_def)

text \<open>
  C7 as written fails on the body: it is the longer sentence of line 106, not
  \<^verbatim>\<open>Method not allowed\<close>.
\<close>

theorem method_not_allowed_counterexample:
  "fetch_v1
     \<lparr>request_method = lit ''PUT'',
         request_url = \<lparr>pathname = lit ''/'', search = []\<rparr>,
         request_headers = [],
         arrayBuffer = []\<rparr>
     \<lparr>SHEETS_SERVICE_KEY_JSON = None\<rparr> =
   Done \<lparr>status = 405,
         headers = [(lit ''Content-Type'', lit ''text/plain'')],
         body = Some (lit ''Method not allowed. Use POST with audio data.'')\<rparr> \<and>
   lit ''Method not allowed. Use POST with audio data.'' \<noteq> lit ''Method not allowed''"
  by (simp add: fetch_v1_def new_Response_def lit_def)

text \<open>
  \<^bold>\<open>C8\<close>. For every request whose path is \<^verbatim>\<open>/favicon.ico\<close>, whatever its method,
  query string, headers and body, and whatever the configuration, the handler returns a
  302 redirect whose \<^verbatim>\<open>Location\<close> is the fixed image URL.
\<close>

theorem favicon_redirect:
  assumes "handler = fetch_v1 \<or> handler = fetch_v2"
    and "pathname (request_url request) = lit ''/favicon.ico''"
  shows "run w (handler request env) =
     Inr \<lparr>status = 302,
          headers = [(lit ''Location'', lit ''https://jacklehamster.github.io/stt-worker/icon.png'')],
          body = None\<rparr>"
  by (simp add: handler_favicon [OF assms] Response_redirect_def)

theorem favicon_redirect_witness:
  "run \<lparr>max_arguments = 125000,
        JSON_parse = \<lambda>s. Inl (JsError []), authorize = \<lambda>opts. Inl (JsError []),
        net_fetch = \<lambda>rq. Inl (JsError [])\<rparr>
     (fetch_v1
        \<lparr>request_method = lit ''GET'',
         request_url = \<lparr>pathname = lit ''/favicon.ico'', search = lit ''?v=2''\<rparr>,
         request_headers = [(lit ''Accept'', lit ''image/*'')],
         arrayBuffer = []\<rparr>
        \<lparr>SHEETS_SERVICE_KEY_JSON = None\<rparr>) =
     Inr \<lparr>status = 302,
          headers = [(lit ''Location'', lit ''https://jacklehamster.github.io/stt-worker/icon.png'')],
          body = None\<rparr>"
  using favicon_redirect [of fetch_v1
        "\<lparr>request_method = lit ''GET'',
         request_url = \<lparr>pathname = lit ''/favicon.ico'', search = lit ''?v=2''\<rparr>,
         request_headers = [(lit ''Accept'', lit ''image/*'')],
         arrayBuffer = []\<rparr>"]
  by simp

text \<open>
  \<^bold>\<open>C9\<close>. When the successful answer of the speech API has a first result with a first
  alternative whose transcript is present and is the empty string, the handler's response
  still has \<^verbatim>\<open>text\<close> equal to \<^verbatim>\<open>No transcription available\<close>: \<^verbatim>\<open>||\<close> falls back
  on every falsy transcript.
\<close>

theorem empty_transcript_fallback:
  assumes "handler = fetch_v1 \<or> handler = fetch_v2"
    and "(rq, Inr sttResponse) \<in> set (fetch_calls w (handler request env))"
    and "ok sttResponse"
    and "api_json sttResponse = Inr result"
    and "results result = Some (r # rs)"
    and "alternatives r = Some (a # as)"
    and "transcript a = Some []"
  shows "run w (handler request env) =
     Inr \<lparr>status = 200,
          headers =
            [(lit ''Content-Type'', lit ''application/json''),
             (lit ''Cache-Control'', lit ''no-store'')],
          body = Some (lit ''{\"text\":\"No transcription available\"}'')\<rparr>"
proof -
  have "first_transcript result = Some []"
    using assms(5-7) by (simp add: first_transcript_def)
  then have "or_default (first_transcript result) (lit ''No transcription available'') =
      lit ''No transcription available''"
    by (simp add: or_default_def)
  then show ?thesis
    using handler_call [OF assms(1,2)] assms(3,4)
    by (simp add: stringify_fallback del: JSON_stringify.simps)
qed

theorem empty_transcript_fallback_witness:
  "run \<lparr>max_arguments = 125000,
        JSON_parse = \<lambda>s. Inr (Parsed (Str (lit ''relay@example.com'')) (Str (lit ''key''))),
        authorize = \<lambda>opts. Inr \<lparr>access_token = Str (lit ''token'')\<rparr>,
        net_fetch = \<lambda>rq. 
          Inr \<lparr>api_status = 200, api_text = [], api_json = 
                 Inr \<lparr>results = Some [\<lparr>alternatives = Some [\<lparr>transcript = Some []\<rparr>]\<rparr>]\<rparr>\<rparr>\<rparr>
     (fetch_v2
        \<lparr>request_method = lit ''POST'',
         request_url = \<lparr>pathname = lit ''/'', search = []\<rparr>,
         request_headers = [],
         arrayBuffer = [1, 2, 3]\<rparr>
        \<lparr>SHEETS_SERVICE_KEY_JSON = Some (lit ''{}'')\<rparr>) =
     Inr \<lparr>status = 200,
          headers =
            [(lit ''Content-Type'', lit ''application/json''),
             (lit ''Cache-Control'', lit ''no-store'')],
          body = Some (lit ''{\"text\":\"No transcription available\"}'')\<rparr>"
  using empty_transcript_fallback [of fetch_v2
        "stt_request (Str (lit ''token'')) (base64_encode [1, 2, 3])"
        "\<lparr>api_status = 200, api_text = [], api_json = 
                 Inr \<lparr>results = Some [\<lparr>alternatives = Some [\<lparr>transcript = Some []\<rparr>]\<rparr>]\<rparr>\<rparr>"
        "\<lparr>max_arguments = 125000,
        JSON_parse = \<lambda>s. Inr (Parsed (Str (lit ''relay@example.com'')) (Str (lit ''key''))),
        authorize = \<lambda>opts. Inr \<lparr>access_token = Str (lit ''token'')\<rparr>,
        net_fetch = \<lambda>rq. 
          Inr \<lparr>api_status = 200, api_text = [], api_json = 
                 Inr \<lparr>results = Some [\<lparr>alternatives = Some [\<lparr>transcript = Some []\<rparr>]\<rparr>]\<rparr>\<rparr>\<rparr>"
        "\<lparr>request_method = lit ''POST'',
         request_url = \<lparr>pathname = lit ''/'', search = []\<rparr>,
         request_headers = [],
         arrayBuffer = [1, 2, 3]\<rparr>"
        "\<lparr>SHEETS_SERVICE_KEY_JSON = Some (lit ''{}'')\<rparr>"
        "\<lparr>results = Some [\<lparr>alternatives = Some [\<lparr>transcript = Some []\<rparr>]\<rparr>]\<rparr>"
        "\<lparr>alternatives = Some [\<lparr>transcript = Some []\<rparr>]\<rparr>" "[]"
        "\<lparr>transcript = Some []\<rparr>" "[]"]
  by (simp add: fetch_calls_v2 fetch_calls_v1 root_not_favicon falsy_def getAuthToken_v1_def ok_def
      lit_def)

text \<open>
  \<^bold>\<open>C10\<close>. For every request that is not a \<^verbatim>\<open>GET\<close> to the root path the two variants
  are to return the same response given the same answers of the token exchange and of
  the speech API, and their two base64 encodings are to agree on every byte sequence. The
  first variant does not keep to it. Line 123 spreads the whole body into the arguments
  of one call of \<^verbatim>\<open>String.fromCharCode\<close>, which throws once the body has more bytes
  than the engine takes arguments; line 262 of the second variant encodes a body of any
  length. Here the request is a \<^verbatim>\<open>POST\<close> with a body of 200000 bytes, and the speech
  API would answer with the transcript \<^verbatim>\<open>hello\<close>: the first variant throws before it
  makes any outbound call, the second answers 200 with the transcript.
\<close>

theorem large_body_variants_diverge:
  "run \<lparr>max_arguments = 125000,
        JSON_parse = \<lambda>s. Inr (Parsed (Str (lit ''relay@example.com'')) (Str (lit ''key''))),
        authorize = \<lambda>opts. Inr \<lparr>access_token = Str (lit ''token'')\<rparr>,
        net_fetch = \<lambda>rq.
          Inr \<lparr>api_status = 200, api_text = [],
               api_json =
                 Inr \<lparr>results = Some [\<lparr>alternatives = Some [\<lparr>transcript = Some (lit ''hello'')\<rparr>]\<rparr>]\<rparr>\<rparr>\<rparr>
     (fetch_v1
        \<lparr>request_method = lit ''POST'',
         request_url = \<lparr>pathname = lit ''/'', search = []\<rparr>,
         request_headers = [],
         arrayBuffer = replicate 200000 0\<rparr>
        \<lparr>SHEETS_SERVICE_KEY_JSON = Some (lit ''{}'')\<rparr>) =
     Inl (JsError (lit ''Maximum call stack size exceeded'')) \<and>
   String_fromCharCode 125000 (replicate 200000 0) =
     Inl (JsError (lit ''Maximum call stack size exceeded'')) \<and>
   fetch_calls \<lparr>max_arguments = 125000,
        JSON_parse = \<lambda>s. Inr (Parsed (Str (lit ''relay@example.com'')) (Str (lit ''key''))),
        authorize = \<lambda>opts. Inr \<lparr>access_token = Str (lit ''token'')\<rparr>,
        net_fetch = \<lambda>rq.
          Inr \<lparr>api_status = 200, api_text = [],
               api_json =
                 Inr \<lparr>results = Some [\<lparr>alternatives = Some [\<lparr>transcript = Some (lit ''hello'')\<rparr>]\<rparr>]\<rparr>\<rparr>\<rparr>
     (fetch_v1
        \<lparr>request_method = lit ''POST'',
         request_url = \<lparr>pathname = lit ''/'', search = []\<rparr>,
         request_headers = [],
         arrayBuffer = replicate 200000 0\<rparr>
        \<lparr>SHEETS_SERVICE_KEY_JSON = Some (lit ''{}'')\<rparr>) = [] \<and>
   run \<lparr>max_arguments = 125000,
        JSON_parse = \<lambda>s. Inr (Parsed (Str (lit ''relay@example.com'')) (Str (lit ''key''))),
        authorize = \<lambda>opts. Inr \<lparr>access_token = Str (lit ''token'')\<rparr>,
        net_fetch = \<lambda>rq.
          Inr \<lparr>api_status = 200, api_text = [],
               api_json =
                 Inr \<lparr>results = Some [\<lparr>alternatives = Some [\<lparr>transcript = Some (lit ''hello'')\<rparr>]\<rparr>]\<rparr>\<rparr>\<rparr>
     (fetch_v2
        \<lparr>request_method = lit ''POST'',
         request_url = \<lparr>pathname = lit ''/'', search = []\<rparr>,
         request_headers = [],
         arrayBuffer = replicate 200000 0\<rparr>
        \<lparr>SHEETS_SERVICE_KEY_JSON = Some (lit ''{}'')\<rparr>) =
     Inr \<lparr>status = 200,
          headers =
            [(lit ''Content-Type'', lit ''application/json''),
             (lit ''Cache-Control'', lit ''no-store'')],
          body = Some (lit ''{\"text\":\"hello\"}'')\<rparr>"
proof -
  have hello: "or_default
      (first_transcript
         \<lparr>results = Some [\<lparr>alternatives = Some [\<lparr>transcript = Some (lit ''hello'')\<rparr>]\<rparr>]\<rparr>)
      (lit ''No transcription available'') = lit ''hello''"
    by (simp add: or_default_def first_transcript_def lit_def)
  have key: "\<not> falsy (Some (lit ''{}''))"
    by (simp add: falsy_def lit_def)
  show ?thesis
    using key
    by (simp add: spread_beyond_bound fetch_v2_POST root_not_favicon run_bind getAuthToken_v1_def
        ok_def new_Response_def hello stringify_hello String_fromCharCode_def
        del: JSON_stringify.simps)
qed

end
